theory Spec2Isabelle
  imports Complex_Main "HOL-Library.Word" "HOL-Library.Product_Lexorder"
    "HOL-Library.Char_ord" "HOL-Library.List_Lexorder"
begin

unbundle bit_operations_syntax

section \<open>Configuration constants (server/config/constants.js)\<close>

definition MIN_DURATION_MS :: int where "MIN_DURATION_MS = 1000"
definition MAX_DURATION_MS :: int where "MAX_DURATION_MS = 3600000"
definition MAX_SCORE_PER_MINUTE :: int where "MAX_SCORE_PER_MINUTE = 100000"
definition MAX_HITS_PER_MINUTE :: int where "MAX_HITS_PER_MINUTE = 120"
definition MAX_COMBO :: int where "MAX_COMBO = 100"
definition MAX_SCORE :: int where "MAX_SCORE = 10000000"

section \<open>Result validation (server/middleware/validation.js, validateGameResult)\<close>

text \<open>
  A numeric field of the JSON body as the express-validator chain sees it: the field is
  absent, it is present but not an integer, or it is an integer (a JSON number or a
  numeric string, which \<^verbatim>\<open>toInt()\<close> turns into the number).
\<close>

datatype intfield = Absent | NotInt | IntVal int

record raw_body =
  raw_sessionId :: "string option"
  raw_telegramId :: intfield
  raw_initData :: "string option"
  raw_score :: intfield
  raw_targetsHit :: intfield
  raw_shotsFired :: intfield
  raw_maxCombo :: intfield
  raw_durationMs :: intfield
  raw_gameMode :: "string option"

text \<open>The body after the sanitizers of the chain have run (\<^verbatim>\<open>toInt()\<close>).\<close>

record body =
  body_sessionId :: "string option"
  body_telegramId :: "int option"
  body_initData :: "string option"
  body_score :: int
  body_targetsHit :: int
  body_shotsFired :: int
  body_maxCombo :: int
  body_durationMs :: int
  body_gameMode :: "string option"

text \<open>The value of a hexadecimal digit of either case; \<open>None\<close> for any other character.\<close>

definition hex_value :: "char \<Rightarrow> nat option" where
  "hex_value c =
     (let n = (of_char c :: nat) in
      if 48 \<le> n \<and> n \<le> 57 then Some (n - 48)
      else if 97 \<le> n \<and> n \<le> 102 then Some (n - 87)
      else if 65 \<le> n \<and> n \<le> 70 then Some (n - 55)
      else None)"

definition is_hex_digit :: "char \<Rightarrow> bool" where
  "is_hex_digit c \<longleftrightarrow> hex_value c \<noteq> None"

text \<open>
  \<^verbatim>\<open>isUUID(4)\<close>: 8-4-4-4-12 hexadecimal digits of either case, with the version digit 4
  and a variant digit among 8, 9, a, b. In the pattern, \<open>x\<close> stands for a hexadecimal
  digit and \<open>y\<close> for a variant digit; the other characters stand for themselves.
\<close>

definition uuid_char :: "char \<Rightarrow> char \<Rightarrow> bool" where
  "uuid_char p c =
     (if p = CHR ''x'' then is_hex_digit c
      else if p = CHR ''y'' then c \<in> set ''89abAB''
      else c = p)"

definition isUUID4 :: "string \<Rightarrow> bool" where
  "isUUID4 s \<longleftrightarrow> list_all2 uuid_char ''xxxxxxxx-xxxx-4xxx-yxxx-xxxxxxxxxxxx'' s"

fun isInt :: "int \<Rightarrow> int option \<Rightarrow> intfield \<Rightarrow> bool" where
  "isInt lo hi (IntVal n) = (lo \<le> n \<and> (case hi of None \<Rightarrow> True | Some h \<Rightarrow> n \<le> h))"
| "isInt lo hi Absent = False"
| "isInt lo hi NotInt = False"

fun toInt :: "intfield \<Rightarrow> int" where
  "toInt (IntVal n) = n"
| "toInt Absent = 0"
| "toInt NotInt = 0"

fun toInt_opt :: "intfield \<Rightarrow> int option" where
  "toInt_opt (IntVal n) = Some n"
| "toInt_opt Absent = None"
| "toInt_opt NotInt = None"

definition game_modes :: "string list" where
  "game_modes = [''endless'', ''timed'', ''accuracy'', ''survival'']"

text \<open>
  The field checks of the chain, in the order they are declared. Every check runs; the
  result is the list of the fields that failed (\<^verbatim>\<open>errors.array()\<close>).
\<close>

definition field_errors :: "raw_body \<Rightarrow> string list" where
  "field_errors rb =
     (case raw_sessionId rb of None \<Rightarrow> [] | Some s \<Rightarrow> if isUUID4 s then [] else [''sessionId'']) @
     (if raw_telegramId rb = Absent \<or> isInt 1 None (raw_telegramId rb) then [] else [''telegramId'']) @
     (if isInt 0 (Some MAX_SCORE) (raw_score rb) then [] else [''score'']) @
     (if isInt 0 (Some 10000) (raw_targetsHit rb) then [] else [''targetsHit'']) @
     (if isInt 0 (Some 50000) (raw_shotsFired rb) then [] else [''shotsFired'']) @
     (if isInt 1 (Some MAX_COMBO) (raw_maxCombo rb) then [] else [''maxCombo'']) @
     (if isInt MIN_DURATION_MS (Some MAX_DURATION_MS) (raw_durationMs rb) then [] else [''durationMs'']) @
     (case raw_gameMode rb of None \<Rightarrow> [] | Some m \<Rightarrow> if m \<in> set game_modes then [] else [''gameMode''])"

definition sanitized :: "raw_body \<Rightarrow> body" where
  "sanitized rb =
     \<lparr> body_sessionId = raw_sessionId rb,
       body_telegramId = toInt_opt (raw_telegramId rb),
       body_initData = raw_initData rb,
       body_score = toInt (raw_score rb),
       body_targetsHit = toInt (raw_targetsHit rb),
       body_shotsFired = toInt (raw_shotsFired rb),
       body_maxCombo = toInt (raw_maxCombo rb),
       body_durationMs = toInt (raw_durationMs rb),
       body_gameMode = raw_gameMode rb \<rparr>"

text \<open>The reasons for which the validator answers 400.\<close>

datatype rejection =
    ValidationError "string list"
  | ScoreTooHigh
  | TooManyHits
  | HitsExceedShots

text \<open>\<^verbatim>\<open>handleValidationErrors\<close>: 400 with the failed fields, or on to the next handler.\<close>

definition handleValidationErrors :: "raw_body \<Rightarrow> rejection + body" where
  "handleValidationErrors rb =
     (if field_errors rb \<noteq> [] then Inl (ValidationError (field_errors rb))
      else Inr (sanitized rb))"

text \<open>
  The anti-cheat handler computes with JavaScript numbers. Integers of the sizes the
  range checks allow are exact; a quotient is rounded to the nearest double. The
  rounding is the parameter \<open>fl\<close>: \<open>fl x\<close> is the double that the exact result \<open>x\<close>
  is rounded to.
\<close>

definition MIN_DURATION_FOR_ANTICHEAT :: int where
  "MIN_DURATION_FOR_ANTICHEAT = 10000"

definition durationMin :: "(rat \<Rightarrow> rat) \<Rightarrow> body \<Rightarrow> rat" where
  "durationMin fl b = fl (of_int (body_durationMs b) / 60000)"

definition scorePerMin :: "(rat \<Rightarrow> rat) \<Rightarrow> body \<Rightarrow> rat" where
  "scorePerMin fl b = fl (of_int (body_score b) / durationMin fl b)"

definition hitsPerMin :: "(rat \<Rightarrow> rat) \<Rightarrow> body \<Rightarrow> rat" where
  "hitsPerMin fl b = fl (of_int (body_targetsHit b) / durationMin fl b)"

definition antiCheat :: "(rat \<Rightarrow> rat) \<Rightarrow> body \<Rightarrow> rejection + body" where
  "antiCheat fl b =
     (if body_durationMs b \<ge> MIN_DURATION_FOR_ANTICHEAT \<and> durationMin fl b > 0
         \<and> scorePerMin fl b > of_int MAX_SCORE_PER_MINUTE
      then Inl ScoreTooHigh
      else if body_durationMs b \<ge> MIN_DURATION_FOR_ANTICHEAT \<and> durationMin fl b > 0
         \<and> hitsPerMin fl b > of_int MAX_HITS_PER_MINUTE
      then Inl TooManyHits
      else if body_shotsFired b > 0 \<and> body_targetsHit b > body_shotsFired b
      then Inl HitsExceedShots
      else Inr b)"

definition validateGameResult :: "(rat \<Rightarrow> rat) \<Rightarrow> raw_body \<Rightarrow> rejection + body" where
  "validateGameResult fl rb =
     (case handleValidationErrors rb of
        Inl r \<Rightarrow> Inl r
      | Inr b \<Rightarrow> antiCheat fl b)"


text \<open>Exact arithmetic: the rounding that changes nothing.\<close>

definition exact :: "rat \<Rightarrow> rat" where
  "exact x = x"

text \<open>The two rules the claims name, as the code evaluates them.\<close>

definition rate_violation :: "(rat \<Rightarrow> rat) \<Rightarrow> body \<Rightarrow> bool" where
  "rate_violation fl b \<longleftrightarrow>
     body_durationMs b \<ge> MIN_DURATION_FOR_ANTICHEAT \<and> durationMin fl b > 0 \<and>
     (scorePerMin fl b > of_int MAX_SCORE_PER_MINUTE \<or> hitsPerMin fl b > of_int MAX_HITS_PER_MINUTE)"

definition consistency_violation :: "body \<Rightarrow> bool" where
  "consistency_violation b \<longleftrightarrow> body_shotsFired b > 0 \<and> body_targetsHit b > body_shotsFired b"


definition overhit_body :: raw_body where
  "overhit_body =
     \<lparr> raw_sessionId = None, raw_telegramId = IntVal 7, raw_initData = None,
       raw_score = IntVal 0, raw_targetsHit = IntVal 100, raw_shotsFired = IntVal 10,
       raw_maxCombo = IntVal 1, raw_durationMs = IntVal 30000, raw_gameMode = None \<rparr>"

section \<open>Platform functions used by the signature verifier\<close>

text \<open>
  Strings are lists of bytes holding UTF-8 text. \<^verbatim>\<open>URLSearchParams\<close> decodes the
  percent-decoded bytes as UTF-8 and \<^verbatim>\<open>hmac.update\<close> encodes the string as UTF-8
  again, which gives the same bytes back for well-formed UTF-8; the replacement
  of ill-formed sequences by U+FFFD is outside this model.
\<close>

subsection \<open>URLSearchParams\<close>

fun split_on :: "'a \<Rightarrow> 'a list \<Rightarrow> 'a list list" where
  "split_on c [] = [[]]"
| "split_on c (x # xs) =
     (if x = c then [] # split_on c xs
      else (case split_on c xs of
              [] \<Rightarrow> [[x]]
            | w # ws \<Rightarrow> (x # w) # ws))"

text \<open>A percent sign followed by two hexadecimal digits is one byte; any other percent
  sign stands for itself.\<close>

fun percent_decode :: "string \<Rightarrow> string" where
  "percent_decode (c # h # l # rest) =
     (if c = CHR ''%'' then
        (case (hex_value h, hex_value l) of
           (Some a, Some b) \<Rightarrow> char_of (a * 16 + b) # percent_decode rest
         | _ \<Rightarrow> c # percent_decode (h # l # rest))
      else c # percent_decode (h # l # rest))"
| "percent_decode [c, h] = c # percent_decode [h]"
| "percent_decode [c] = [c]"
| "percent_decode [] = []"

definition plus_to_space :: "string \<Rightarrow> string" where
  "plus_to_space s = map (\<lambda>c. if c = CHR ''+'' then CHR '' '' else c) s"

text \<open>One \<^verbatim>\<open>name=value\<close> sequence: split at the first equals sign, none gives an empty
  value.\<close>

definition parse_pair :: "string \<Rightarrow> string \<times> string" where
  "parse_pair s =
     (let name = takeWhile (\<lambda>c. c \<noteq> CHR ''='') s;
          val = drop (Suc (length name)) s
      in (percent_decode (plus_to_space name), percent_decode (plus_to_space val)))"

text \<open>\<^verbatim>\<open>new URLSearchParams(init)\<close> for a string: a leading question mark is dropped,
  the rest is split at ampersands, empty sequences are skipped.\<close>

definition URLSearchParams :: "string \<Rightarrow> (string \<times> string) list" where
  "URLSearchParams init =
     (let input = (case init of c # rest \<Rightarrow> if c = CHR ''?'' then rest else init | [] \<Rightarrow> init)
      in map parse_pair (filter (\<lambda>s. s \<noteq> []) (split_on CHR ''&'' input)))"

text \<open>\<^verbatim>\<open>get\<close>: the value of the first pair with the name, or null.\<close>

fun params_get :: "string \<Rightarrow> (string \<times> string) list \<Rightarrow> string option" where
  "params_get name [] = None"
| "params_get name ((k, v) # ps) = (if k = name then Some v else params_get name ps)"

text \<open>\<^verbatim>\<open>delete\<close>: removes every pair with the name.\<close>

definition params_delete :: "string \<Rightarrow> (string \<times> string) list \<Rightarrow> (string \<times> string) list" where
  "params_delete name ps = filter (\<lambda>(k, v). k \<noteq> name) ps"

subsection \<open>Array.prototype.sort and join\<close>

text \<open>
  \<^verbatim>\<open>sort\<close> with a comparator is stable: an element goes before the first element
  that the comparator puts strictly after it. The comparator of the verifier is
  \<^verbatim>\<open>localeCompare\<close> on the keys, whose order depends on the locale of the process; it
  is the parameter \<open>cmp\<close>.
\<close>

fun insert_by :: "('a \<Rightarrow> 'a \<Rightarrow> int) \<Rightarrow> 'a \<Rightarrow> 'a list \<Rightarrow> 'a list" where
  "insert_by cmp x [] = [x]"
| "insert_by cmp x (y # ys) = (if cmp x y < 0 then x # y # ys else y # insert_by cmp x ys)"

definition sort_by :: "('a \<Rightarrow> 'a \<Rightarrow> int) \<Rightarrow> 'a list \<Rightarrow> 'a list" where
  "sort_by cmp xs = foldl (\<lambda>acc x. insert_by cmp x acc) [] xs"

fun join :: "string \<Rightarrow> string list \<Rightarrow> string" where
  "join sep [] = []"
| "join sep [x] = x"
| "join sep (x # y # ys) = x @ sep @ join sep (y # ys)"

subsection \<open>Hexadecimal buffers\<close>

definition hex_digit :: "nat \<Rightarrow> char" where
  "hex_digit n = ''0123456789abcdef'' ! n"

text \<open>\<^verbatim>\<open>digest('hex')\<close>: two lower-case digits for each byte.\<close>

definition hex_encode :: "string \<Rightarrow> string" where
  "hex_encode bs =
     concat (map (\<lambda>c. [hex_digit (of_char c div 16), hex_digit (of_char c mod 16)]) bs)"

text \<open>
  \<^verbatim>\<open>Buffer.from(s, 'hex')\<close>: pairs of hexadecimal digits of either case are decoded
  while they last; decoding stops, without an error, at the first pair that is not two
  hexadecimal digits, and a last single character is dropped.
\<close>

fun hex_decode :: "string \<Rightarrow> string" where
  "hex_decode (h # l # rest) =
     (case (hex_value h, hex_value l) of
        (Some a, Some b) \<Rightarrow> char_of (a * 16 + b) # hex_decode rest
      | _ \<Rightarrow> [])"
| "hex_decode [h] = []"
| "hex_decode [] = []"

datatype js_exception = RangeError | TypeError | SyntaxError

text \<open>\<^verbatim>\<open>crypto.timingSafeEqual\<close> throws a RangeError on buffers of different lengths.\<close>

definition timingSafeEqual :: "string \<Rightarrow> string \<Rightarrow> js_exception + bool" where
  "timingSafeEqual a b = (if length a \<noteq> length b then Inl RangeError else Inr (a = b))"

subsection \<open>SHA-256 and HMAC (\<^verbatim>\<open>crypto.createHmac('sha256', key)\<close>)\<close>

type_synonym w32 = "32 word"

definition Ch :: "w32 \<Rightarrow> w32 \<Rightarrow> w32 \<Rightarrow> w32" where
  "Ch x y z = (x AND y) XOR (NOT x AND z)"

definition Maj :: "w32 \<Rightarrow> w32 \<Rightarrow> w32 \<Rightarrow> w32" where
  "Maj x y z = (x AND y) XOR (x AND z) XOR (y AND z)"

definition Sigma0 :: "w32 \<Rightarrow> w32" where
  "Sigma0 x = word_rotr 2 x XOR word_rotr 13 x XOR word_rotr 22 x"

definition Sigma1 :: "w32 \<Rightarrow> w32" where
  "Sigma1 x = word_rotr 6 x XOR word_rotr 11 x XOR word_rotr 25 x"

definition sigma0 :: "w32 \<Rightarrow> w32" where
  "sigma0 x = word_rotr 7 x XOR word_rotr 18 x XOR drop_bit 3 x"

definition sigma1 :: "w32 \<Rightarrow> w32" where
  "sigma1 x = word_rotr 17 x XOR word_rotr 19 x XOR drop_bit 10 x"

text \<open>
  The constants of the standard are defined by roots of primes: a round constant is the
  first 32 bits of the fractional part of the cube root of a prime, for the first 64
  primes in turn, and an initial hash word is the same of the square root, for the first
  8 primes. \<open>root_floor k n\<close> is the largest \<open>r\<close> below \<open>2^40\<close> with \<open>r^k \<le> n\<close>, found
  bit by bit from the top.
\<close>

definition is_prime :: "nat \<Rightarrow> bool" where
  "is_prime n \<longleftrightarrow> 1 < n \<and> list_all (\<lambda>k. \<not> k dvd n) [2 ..< n]"

definition root_floor :: "nat \<Rightarrow> nat \<Rightarrow> nat" where
  "root_floor k n = foldl (\<lambda>r b. if (r + 2 ^ b) ^ k \<le> n then r + 2 ^ b else r) 0 (rev [0 ..< 40])"

definition sha256_K :: "w32 list" where
  "sha256_K = map (\<lambda>p. word_of_nat (root_floor 3 (p * 2 ^ 96))) (filter is_prime [2 ..< 312])"

definition sha256_H0 :: "w32 list" where
  "sha256_H0 = map (\<lambda>p. word_of_nat (root_floor 2 (p * 2 ^ 64))) [2, 3, 5, 7, 11, 13, 17, 19]"

text \<open>The message schedule: \<open>n\<close> further words appended to the words so far.\<close>

fun schedule :: "nat \<Rightarrow> w32 list \<Rightarrow> w32 list" where
  "schedule 0 ws = ws"
| "schedule (Suc n) ws =
     (let t = length ws
      in schedule n (ws @ [sigma1 (ws ! (t - 2)) + ws ! (t - 7) + sigma0 (ws ! (t - 15)) + ws ! (t - 16)]))"

text \<open>One round on the working variables \<open>a \<dots> h\<close> with a round constant and a schedule word.\<close>

fun sha256_round :: "w32 list \<Rightarrow> w32 \<times> w32 \<Rightarrow> w32 list" where
  "sha256_round [a, b, c, d, e, f, g, h] (k, w) =
     (let t1 = h + Sigma1 e + Ch e f g + k + w;
          t2 = Sigma0 a + Maj a b c
      in [t1 + t2, a, b, c, d + t1, e, f, g])"
| "sha256_round vs (k, w) = vs"

definition compress :: "w32 list \<Rightarrow> w32 list \<Rightarrow> w32 list" where
  "compress hs block =
     map2 (+) hs (foldl sha256_round hs (zip sha256_K (schedule 48 block)))"

text \<open>Big-endian words of a block of bytes, and back.\<close>

fun be_words :: "string \<Rightarrow> w32 list" where
  "be_words (a # b # c # d # rest) =
     (push_bit 24 (of_char a) + push_bit 16 (of_char b) + push_bit 8 (of_char c) + of_char d)
       # be_words rest"
| "be_words cs = []"

definition be_bytes :: "w32 \<Rightarrow> string" where
  "be_bytes w =
     [char_of (unat (drop_bit 24 w)), char_of (unat (drop_bit 16 w)),
      char_of (unat (drop_bit 8 w)), char_of (unat w)]"

text \<open>Padding: a one bit, zeros up to 56 modulo 64 bytes, the bit length in 64 bits.\<close>

definition sha256_pad :: "string \<Rightarrow> string" where
  "sha256_pad m =
     (let n = length m;
          zeros = (119 - n mod 64) mod 64;
          bits = (word_of_nat (8 * n) :: 64 word)
      in m @ [char_of (128 :: nat)] @ replicate zeros (char_of (0 :: nat)) @
         map (\<lambda>i. char_of (unat (drop_bit (56 - 8 * i) bits))) [0 ..< 8])"

fun blocks :: "nat \<Rightarrow> string \<Rightarrow> string list" where
  "blocks 0 bs = []"
| "blocks (Suc n) bs = take 64 bs # blocks n (drop 64 bs)"

definition sha256 :: "string \<Rightarrow> string" where
  "sha256 m =
     (let p = sha256_pad m
      in concat (map be_bytes
           (foldl compress sha256_H0 (map be_words (blocks (length p div 64) p)))))"

definition xor_byte :: "nat \<Rightarrow> char \<Rightarrow> char" where
  "xor_byte n c = char_of ((of_char c :: nat) XOR n)"

definition hmac_sha256 :: "string \<Rightarrow> string \<Rightarrow> string" where
  "hmac_sha256 key m =
     (let k0 = (if length key > 64 then sha256 key else key);
          k = k0 @ replicate (64 - length k0) (char_of (0 :: nat))
      in sha256 (map (xor_byte 0x5c) k @ sha256 (map (xor_byte 0x36) k @ m)))"

section \<open>Signature verifier (server/middleware/telegramAuth.js, verifyTelegramWebAppData)\<close>

definition newline :: string where
  "newline = [char_of (10 :: nat)]"

definition dataCheckString :: "(string \<Rightarrow> string \<Rightarrow> int) \<Rightarrow> (string \<times> string) list \<Rightarrow> string" where
  "dataCheckString cmp entries =
     join newline
       (map (\<lambda>(key, val). key @ ''='' @ val)
          (sort_by (\<lambda>(a, _) (b, _). cmp a b) entries))"

definition calculatedHash :: "(string \<Rightarrow> string \<Rightarrow> int) \<Rightarrow> string \<Rightarrow> string \<Rightarrow> string" where
  "calculatedHash cmp init botToken =
     (let urlParams = params_delete ''hash'' (URLSearchParams init);
          secretKey = hmac_sha256 ''WebAppData'' botToken
      in hex_encode (hmac_sha256 secretKey (dataCheckString cmp urlParams)))"

text \<open>The body of the \<^verbatim>\<open>try\<close> block: a value, or the exception it throws.\<close>

definition verify_try :: "(string \<Rightarrow> string \<Rightarrow> int) \<Rightarrow> string \<Rightarrow> string \<Rightarrow> js_exception + bool" where
  "verify_try cmp init botToken =
     (case params_get ''hash'' (URLSearchParams init) of
        None \<Rightarrow> Inr False
      | Some hash \<Rightarrow>
          if hash = [] then Inr False
          else timingSafeEqual (hex_decode hash) (hex_decode (calculatedHash cmp init botToken)))"

text \<open>
  The function. An argument is \<open>None\<close> when it is \<^verbatim>\<open>undefined\<close> or \<^verbatim>\<open>null\<close>; the guard
  \<^verbatim>\<open>!initData || !botToken\<close> also catches the empty string. The \<^verbatim>\<open>catch\<close> of the
  \<^verbatim>\<open>try\<close> block returns false for every exception.
\<close>

definition verifyTelegramWebAppData ::
    "(string \<Rightarrow> string \<Rightarrow> int) \<Rightarrow> string option \<Rightarrow> string option \<Rightarrow> bool" where
  "verifyTelegramWebAppData cmp initData botToken =
     (case (initData, botToken) of
        (Some init, Some tok) \<Rightarrow>
          if init = [] \<or> tok = [] then False
          else (case verify_try cmp init tok of
                  Inl err \<Rightarrow> False
                | Inr valid \<Rightarrow> valid)
      | _ \<Rightarrow> False)"

subsection \<open>The verifier as the specification words it\<close>



subsection \<open>Example payloads\<close>

text \<open>A comparator that orders keys by their code units.\<close>

definition compare_code_units :: "string \<Rightarrow> string \<Rightarrow> int" where
  "compare_code_units a b = (if a < b then - 1 else if a = b then 0 else 1)"

definition sample_token :: string where
  "sample_token = ''123456:ABC-DEF''"

text \<open>The digest of the one-pair payload \<^verbatim>\<open>auth_date=1\<close> under the sample token, in
  hexadecimal, and a payload that carries it followed by two characters that are not
  hexadecimal digits.\<close>

definition genuine_hash :: string where
  "genuine_hash = calculatedHash compare_code_units ''auth_date=1'' sample_token"




section \<open>Identity extractor (server/middleware/telegramAuth.js, extractTelegramUser)\<close>

text \<open>
  Values of \<^verbatim>\<open>JSON.parse\<close>. An object keeps its members in the order of the text; a
  later member with the same key overrides an earlier one. \<^verbatim>\<open>JSON.parse\<close> itself is the
  platform's function: it is the parameter \<open>parse\<close>, which gives the parsed value or
  the SyntaxError it throws.
\<close>

datatype json =
    JNull
  | JBool bool
  | JNum rat
  | JStr string
  | JArr "json list"
  | JObj "(string \<times> json) list"

text \<open>The value of an expression: a JSON value or \<^verbatim>\<open>undefined\<close>.\<close>

datatype jsval = Undefined | Defined json

text \<open>Reading a property of a value that is not null: only an object has the members
  the extractor reads.\<close>

fun get_prop :: "json \<Rightarrow> string \<Rightarrow> jsval" where
  "get_prop (JObj members) k = (case map_of (rev members) k of None \<Rightarrow> Undefined | Some v \<Rightarrow> Defined v)"
| "get_prop v k = Undefined"

fun truthy :: "json \<Rightarrow> bool" where
  "truthy JNull = False"
| "truthy (JBool b) = b"
| "truthy (JNum n) = (n \<noteq> 0)"
| "truthy (JStr s) = (s \<noteq> [])"
| "truthy (JArr vs) = True"
| "truthy (JObj members) = True"

text \<open>\<^verbatim>\<open>a || b\<close>\<close>

fun js_or :: "jsval \<Rightarrow> json \<Rightarrow> json" where
  "js_or Undefined d = d"
| "js_or (Defined v) d = (if truthy v then v else d)"

record telegram_user =
  tg_telegramId :: jsval
  tg_username :: json
  tg_firstName :: json
  tg_lastName :: json
  tg_languageCode :: json
  tg_isPremium :: json

text \<open>The body of the \<^verbatim>\<open>try\<close> block. Reading a property of null throws a TypeError.\<close>

definition extract_try ::
    "(string \<Rightarrow> js_exception + json) \<Rightarrow> string \<Rightarrow> js_exception + telegram_user option" where
  "extract_try parse init =
     (case params_get ''user'' (URLSearchParams init) of
        None \<Rightarrow> Inr None
      | Some userJson \<Rightarrow>
          if userJson = [] then Inr None
          else (case parse userJson of
                  Inl err \<Rightarrow> Inl err
                | Inr user \<Rightarrow>
                    if user = JNull then Inl TypeError
                    else Inr (Some
                      \<lparr> tg_telegramId = get_prop user ''id'',
                        tg_username = js_or (get_prop user ''username'') JNull,
                        tg_firstName = js_or (get_prop user ''first_name'') (JStr ''''),
                        tg_lastName = js_or (get_prop user ''last_name'') (JStr ''''),
                        tg_languageCode = js_or (get_prop user ''language_code'') (JStr ''en''),
                        tg_isPremium = js_or (get_prop user ''is_premium'') (JBool False) \<rparr>)))"

definition extractTelegramUser ::
    "(string \<Rightarrow> js_exception + json) \<Rightarrow> string option \<Rightarrow> telegram_user option" where
  "extractTelegramUser parse initData =
     (case initData of
        None \<Rightarrow> None
      | Some init \<Rightarrow>
          if init = [] then None
          else (case extract_try parse init of
                  Inl err \<Rightarrow> None
                | Inr result \<Rightarrow> result))"

section \<open>Auth resolver (server/middleware/telegramAuth.js, telegramAuthMiddleware)\<close>

text \<open>The environment variables the resolver reads; \<open>None\<close> is an unset variable.\<close>

record env =
  NODE_ENV :: "string option"
  BOT_TOKEN :: "string option"
  SKIP_TELEGRAM_VERIFY :: "string option"
  ALLOW_SESSION_AUTH :: "string option"

text \<open>What the middleware does with the request: it answers with a status and an error
  text, or it calls \<^verbatim>\<open>next()\<close> with the identity it has attached to the request.\<close>

datatype auth_outcome =
    Respond nat string
  | NextTelegram telegram_user
  | NextSession string

definition isDev :: "env \<Rightarrow> bool" where
  "isDev e \<longleftrightarrow> NODE_ENV e = Some ''development''"

definition skipVerify :: "env \<Rightarrow> bool" where
  "skipVerify e \<longleftrightarrow> SKIP_TELEGRAM_VERIFY e = Some ''true''"

definition is_production :: "env \<Rightarrow> bool" where
  "is_production e \<longleftrightarrow> NODE_ENV e = Some ''production''"

text \<open>A string taken from the body or the environment is falsy when it is missing or
  empty.\<close>

fun falsy :: "string option \<Rightarrow> bool" where
  "falsy None = True"
| "falsy (Some s) = (s = [])"

definition telegramAuthMiddleware ::
    "(string \<Rightarrow> string \<Rightarrow> int) \<Rightarrow> (string \<Rightarrow> js_exception + json) \<Rightarrow> env \<Rightarrow>
     string option \<Rightarrow> string option \<Rightarrow> auth_outcome" where
  "telegramAuthMiddleware cmp parse e initData sessionId =
     (let botToken = BOT_TOKEN e in
      if \<not> falsy initData then
        (if \<not> isDev e \<and> \<not> skipVerify e \<and> falsy botToken
         then Respond 500 ''Server configuration error''
         else if \<not> isDev e \<and> \<not> skipVerify e \<and> \<not> verifyTelegramWebAppData cmp initData botToken
         then Respond 401 ''Invalid Telegram authentication''
         else (case extractTelegramUser parse initData of
                 None \<Rightarrow> Respond 400 ''Could not extract user data''
               | Some telegramUser \<Rightarrow> NextTelegram telegramUser))
      else (case sessionId of
              Some sid \<Rightarrow>
                if sid \<noteq> [] then
                  (let allowSessionAuth = (isDev e \<or> ALLOW_SESSION_AUTH e = Some ''true'')
                   in if \<not> allowSessionAuth
                      then Respond 401 ''Session authentication not allowed in production''
                      else NextSession sid)
                else Respond 401 ''Authentication required''
            | None \<Rightarrow> Respond 401 ''Authentication required''))"

text \<open>
  The first part of \<^verbatim>\<open>POST /api/auth/telegram\<close> (server/routes/auth.js), up to the
  extraction of the user: an answer, or the identity the route goes on with.
\<close>

definition auth_telegram_identity ::
    "(string \<Rightarrow> string \<Rightarrow> int) \<Rightarrow> (string \<Rightarrow> js_exception + json) \<Rightarrow> env \<Rightarrow>
     string option \<Rightarrow> (nat \<times> string) + telegram_user" where
  "auth_telegram_identity cmp parse e initData =
     (let botToken = BOT_TOKEN e in
      if falsy initData then Inl (400, ''initData is required'')
      else if \<not> isDev e \<and> \<not> skipVerify e \<and> falsy botToken
      then Inl (500, ''Bot token not configured'')
      else if \<not> isDev e \<and> \<not> skipVerify e \<and> \<not> verifyTelegramWebAppData cmp initData botToken
      then Inl (401, ''Invalid Telegram data'')
      else (case extractTelegramUser parse initData of
              None \<Rightarrow> Inl (400, ''Could not extract user data'')
            | Some telegramUser \<Rightarrow> Inr telegramUser))"

subsection \<open>Example payloads and environments\<close>

text \<open>The JSON texts \<^verbatim>\<open>{}\<close> and \<^verbatim>\<open>{"id":7}\<close>, and \<^verbatim>\<open>JSON.parse\<close> on these two texts
  (every other text is taken as a syntax error; the examples use no other).\<close>

definition json_empty_object :: string where
  "json_empty_object = ''{}''"

definition json_id_7 :: string where
  "json_id_7 = ''{'' @ [CHR 0x22] @ ''id'' @ [CHR 0x22] @ '':7}''"

definition parse_examples :: "string \<Rightarrow> js_exception + json" where
  "parse_examples s =
     (if s = json_empty_object then Inr (JObj [])
      else if s = json_id_7 then Inr (JObj [(''id'', JNum 7)])
      else Inl SyntaxError)"

text \<open>A payload whose user has no id, and a payload for user 7 with a signature that
  nobody computed.\<close>

definition no_id_payload :: string where
  "no_id_payload = ''user={}''"

definition forged_payload :: string where
  "forged_payload = ''user=%7B%22id%22%3A7%7D&hash=00''"

text \<open>Production with the signature check switched off, and production as the
  integration guide configures it.\<close>

definition production_skip_env :: env where
  "production_skip_env =
     \<lparr> NODE_ENV = Some ''production'', BOT_TOKEN = Some sample_token,
       SKIP_TELEGRAM_VERIFY = Some ''true'', ALLOW_SESSION_AUTH = None \<rparr>"

definition production_env :: env where
  "production_env =
     \<lparr> NODE_ENV = Some ''production'', BOT_TOKEN = Some sample_token,
       SKIP_TELEGRAM_VERIFY = Some ''false'', ALLOW_SESSION_AUTH = Some ''false'' \<rparr>"

section \<open>Storage (server/config/database.js, initSchema)\<close>

text \<open>
  The two tables. A table is the list of its rows in the order the engine scans them.
  \<open>users.id\<close> and \<open>scores.id\<close> are AUTO_INCREMENT primary keys, \<open>users.session_id\<close>
  and \<open>users.telegram_id\<close> are UNIQUE (a NULL telegram id never collides), and
  \<open>scores.user_id\<close> references \<open>users.id\<close>. Timestamps are seconds.
\<close>

record user_row =
  users_id :: nat
  users_session_id :: string
  users_username :: "string option"
  users_telegram_id :: "int option"
  users_created_at :: nat
  users_updated_at :: nat

record score_row =
  scores_id :: nat
  scores_user_id :: nat
  scores_score :: int
  scores_targets_hit :: int
  scores_shots_fired :: int
  scores_accuracy :: rat
  scores_max_combo :: int
  scores_duration_ms :: int
  scores_game_mode :: string
  scores_created_at :: nat

record db =
  users :: "user_row list"
  scores :: "score_row list"
  users_auto_increment :: nat
  scores_auto_increment :: nat

datatype db_error = ER_DUP_ENTRY | ER_NO_REFERENCED_ROW | ER_WARN_DATA_OUT_OF_RANGE

text \<open>\<^verbatim>\<open>const [row] = await db.query(...)\<close>: the first row of the result, or undefined.\<close>

fun first_row :: "'a list \<Rightarrow> 'a option" where
  "first_row [] = None"
| "first_row (r # rs) = Some r"

text \<open>\<^verbatim>\<open>SELECT ... FROM users WHERE telegram_id = ?\<close> and \<^verbatim>\<open>... WHERE session_id = ?\<close>\<close>

definition select_users_by_telegram_id :: "db \<Rightarrow> int \<Rightarrow> user_row list" where
  "select_users_by_telegram_id d tid = filter (\<lambda>u. users_telegram_id u = Some tid) (users d)"

definition select_users_by_session_id :: "db \<Rightarrow> string \<Rightarrow> user_row list" where
  "select_users_by_session_id d sid = filter (\<lambda>u. users_session_id u = sid) (users d)"

text \<open>
  \<^verbatim>\<open>INSERT INTO users (...) VALUES (...)\<close>: the row gets the next id; the statement fails
  with a duplicate-key error when the session id or a non-NULL telegram id is already in
  the table. The result is the new table state and \<^verbatim>\<open>insertId\<close>.
\<close>

definition insert_user ::
    "db \<Rightarrow> string \<Rightarrow> string option \<Rightarrow> int option \<Rightarrow> nat \<Rightarrow> db_error + (db \<times> nat)" where
  "insert_user d sid uname tid now =
     (if sid \<in> set (map users_session_id (users d)) \<or>
         (tid \<noteq> None \<and> tid \<in> set (map users_telegram_id (users d)))
      then Inl ER_DUP_ENTRY
      else Inr (d \<lparr> users := users d @
                    [\<lparr> users_id = users_auto_increment d, users_session_id = sid,
                       users_username = uname, users_telegram_id = tid,
                       users_created_at = now, users_updated_at = now \<rparr>],
                  users_auto_increment := Suc (users_auto_increment d) \<rparr>,
                users_auto_increment d))"

text \<open>
  \<^verbatim>\<open>INSERT INTO users (telegram_id, username, session_id) VALUES (?, ?, UUID())
  ON DUPLICATE KEY UPDATE username = VALUES(username), updated_at = CURRENT_TIMESTAMP\<close>:
  when a row already has the session id or the telegram id, that row is updated and no
  row is added; the statement does not fail on a duplicate.
\<close>

definition update_username :: "db \<Rightarrow> nat \<Rightarrow> string option \<Rightarrow> nat \<Rightarrow> db" where
  "update_username d uid uname now =
     d \<lparr> users := map (\<lambda>u. if users_id u = uid
                            then u \<lparr> users_username := uname, users_updated_at := now \<rparr>
                            else u) (users d) \<rparr>"

definition upsert_user_telegram :: "db \<Rightarrow> int \<Rightarrow> string option \<Rightarrow> string \<Rightarrow> nat \<Rightarrow> db_error + db" where
  "upsert_user_telegram d tid uname uuid now =
     (case first_row (select_users_by_session_id d uuid) of
        Some u \<Rightarrow> Inr (update_username d (users_id u) uname now)
      | None \<Rightarrow>
          (case first_row (select_users_by_telegram_id d tid) of
             Some u \<Rightarrow> Inr (update_username d (users_id u) uname now)
           | None \<Rightarrow>
               (case insert_user d uuid uname (Some tid) now of
                  Inl err \<Rightarrow> Inl err
                | Inr (d', insertId) \<Rightarrow> Inr d')))"

text \<open>
  A JavaScript number bound to the \<^verbatim>\<open>DECIMAL(5,4)\<close> column \<open>accuracy\<close>: rounded to
  four decimals, and refused above 9.9999.
\<close>

definition decimal_5_4 :: "rat \<Rightarrow> db_error + rat" where
  "decimal_5_4 x =
     (let r = of_int \<lfloor>x * 10000 + 1 / 2\<rfloor> / 10000
      in if \<bar>r\<bar> > 99999 / 10000 then Inl ER_WARN_DATA_OUT_OF_RANGE else Inr r)"

text \<open>\<^verbatim>\<open>INSERT INTO scores (...) VALUES (...)\<close>: fails when the user does not exist.\<close>

definition insert_score ::
    "db \<Rightarrow> nat \<Rightarrow> int \<Rightarrow> int \<Rightarrow> int \<Rightarrow> rat \<Rightarrow> int \<Rightarrow> int \<Rightarrow> string \<Rightarrow> nat \<Rightarrow> db_error + (db \<times> nat)" where
  "insert_score d userId sc hits shots acc combo duration mode now =
     (if userId \<notin> set (map users_id (users d)) then Inl ER_NO_REFERENCED_ROW
      else (case decimal_5_4 acc of
              Inl err \<Rightarrow> Inl err
            | Inr stored \<Rightarrow>
                Inr (d \<lparr> scores := scores d @
                          [\<lparr> scores_id = scores_auto_increment d, scores_user_id = userId,
                             scores_score = sc, scores_targets_hit = hits,
                             scores_shots_fired = shots, scores_accuracy = stored,
                             scores_max_combo = combo, scores_duration_ms = duration,
                             scores_game_mode = mode, scores_created_at = now \<rparr>],
                        scores_auto_increment := Suc (scores_auto_increment d) \<rparr>,
                     scores_auto_increment d)))"

text \<open>\<^verbatim>\<open>SELECT COUNT(*) + 1 as rank FROM scores WHERE score > ?\<close>\<close>

definition select_rank :: "db \<Rightarrow> int \<Rightarrow> int" where
  "select_rank d sc = int (length (filter (\<lambda>r. scores_score r > sc) (scores d))) + 1"

section \<open>Score submission (server/routes/scores.js, router.post('/'))\<close>

record score_created =
  created_scoreId :: nat
  created_rank :: int
  created_score :: int
  created_targetsHit :: int
  created_accuracy :: int
  created_maxCombo :: int

text \<open>The answers of the route: 201, 400 from the validator or the handler, 429 from the
  limiter, and the error handler's 500 after \<^verbatim>\<open>next(error)\<close>.\<close>

datatype scores_reply =
    Created score_created
  | Invalid rejection
  | BadRequest string
  | TooManyRequests
  | ServerError db_error

text \<open>
  The handler awaits each query, and other requests run between two of its queries. It
  is modelled in two steps: the first \<^verbatim>\<open>SELECT\<close>, which looks the user up, and the rest,
  which runs on the table state it finds when it resumes.
\<close>

datatype user_lookup =
    ByTelegram int "user_row option"
  | BySession string "user_row option"
  | NoIdentity

definition post_scores_lookup :: "db \<Rightarrow> body \<Rightarrow> user_lookup" where
  "post_scores_lookup d b =
     (case body_telegramId b of
        Some tid \<Rightarrow>
          if tid \<noteq> 0 then ByTelegram tid (first_row (select_users_by_telegram_id d tid))
          else (case body_sessionId b of
                  Some sid \<Rightarrow> if sid \<noteq> [] then BySession sid (first_row (select_users_by_session_id d sid))
                              else NoIdentity
                | None \<Rightarrow> NoIdentity)
      | None \<Rightarrow>
          (case body_sessionId b of
             Some sid \<Rightarrow> if sid \<noteq> [] then BySession sid (first_row (select_users_by_session_id d sid))
                         else NoIdentity
           | None \<Rightarrow> NoIdentity))"

text \<open>The user id the handler goes on with: the id found, or the id of the row it inserts
  (\<open>uuid\<close> is the value of \<^verbatim>\<open>UUID()\<close>).\<close>

definition resolve_user :: "string \<Rightarrow> nat \<Rightarrow> db \<Rightarrow> user_lookup \<Rightarrow> (string + db_error) + (db \<times> nat)" where
  "resolve_user uuid now d l =
     (case l of
        ByTelegram tid None \<Rightarrow>
          (case insert_user d uuid None (Some tid) now of
             Inl err \<Rightarrow> Inl (Inr err)
           | Inr r \<Rightarrow> Inr r)
      | ByTelegram tid (Some user) \<Rightarrow> Inr (d, users_id user)
      | BySession sid None \<Rightarrow>
          (case insert_user d sid None None now of
             Inl err \<Rightarrow> Inl (Inr err)
           | Inr r \<Rightarrow> Inr r)
      | BySession sid (Some user) \<Rightarrow> Inr (d, users_id user)
      | NoIdentity \<Rightarrow> Inl (Inl ''telegramId or sessionId required''))"

definition accuracy :: "(rat \<Rightarrow> rat) \<Rightarrow> body \<Rightarrow> rat" where
  "accuracy fl b =
     (if body_shotsFired b > 0 then fl (of_int (body_targetsHit b) / of_int (body_shotsFired b))
      else 0)"

text \<open>\<^verbatim>\<open>Math.round\<close>\<close>

definition Math_round :: "rat \<Rightarrow> int" where
  "Math_round x = \<lfloor>x + 1 / 2\<rfloor>"

definition post_scores_finish ::
    "(rat \<Rightarrow> rat) \<Rightarrow> string \<Rightarrow> nat \<Rightarrow> db \<Rightarrow> body \<Rightarrow> user_lookup \<Rightarrow> db \<times> scores_reply" where
  "post_scores_finish fl uuid now d b l =
     (case resolve_user uuid now d l of
        Inl (Inl msg) \<Rightarrow> (d, BadRequest msg)
      | Inl (Inr err) \<Rightarrow> (d, ServerError err)
      | Inr (d1, userId) \<Rightarrow>
          (case insert_score d1 userId (body_score b) (body_targetsHit b) (body_shotsFired b)
                  (accuracy fl b) (body_maxCombo b) (body_durationMs b)
                  (case body_gameMode b of None \<Rightarrow> ''endless'' | Some m \<Rightarrow> m) now of
             Inl err \<Rightarrow> (d1, ServerError err)
           | Inr (d2, insertId) \<Rightarrow>
               (let rank = select_rank d2 (body_score b)
                in (d2, Created
                     \<lparr> created_scoreId = insertId,
                       created_rank = (if rank = 0 then 1 else rank),
                       created_score = body_score b,
                       created_targetsHit = body_targetsHit b,
                       created_accuracy = Math_round (fl (accuracy fl b * 100)),
                       created_maxCombo = body_maxCombo b \<rparr>))))"

definition post_scores_handler ::
    "(rat \<Rightarrow> rat) \<Rightarrow> string \<Rightarrow> nat \<Rightarrow> db \<Rightarrow> body \<Rightarrow> db \<times> scores_reply" where
  "post_scores_handler fl uuid now d b = post_scores_finish fl uuid now d b (post_scores_lookup d b)"

text \<open>
  The route: \<^verbatim>\<open>createScoreLimiter()\<close> (\<open>limited\<close> says whether the limiter answers 429),
  \<^verbatim>\<open>validateGameResult\<close>, then the handler. No other middleware is mounted on the route
  or on the router (server/index.js).
\<close>

definition post_scores ::
    "(rat \<Rightarrow> rat) \<Rightarrow> string \<Rightarrow> nat \<Rightarrow> bool \<Rightarrow> db \<Rightarrow> raw_body \<Rightarrow> db \<times> scores_reply" where
  "post_scores fl uuid now limited d rb =
     (if limited then (d, TooManyRequests)
      else (case validateGameResult fl rb of
              Inl r \<Rightarrow> (d, Invalid r)
            | Inr b \<Rightarrow> post_scores_handler fl uuid now d b))"

section \<open>Find or create in POST /api/auth/telegram (server/routes/auth.js)\<close>

text \<open>The part of the route after the identity is extracted, for a numeric telegram id
  and an optional user name: the lookup, then either the upsert and the second lookup,
  or the update of a changed user name. The result is the user row the route answers
  with.\<close>

definition auth_lookup :: "db \<Rightarrow> int \<Rightarrow> user_row option" where
  "auth_lookup d tid = first_row (select_users_by_telegram_id d tid)"

definition auth_finish ::
    "string \<Rightarrow> nat \<Rightarrow> db \<Rightarrow> int \<Rightarrow> string option \<Rightarrow> user_row option \<Rightarrow> (db_error + js_exception) + (db \<times> user_row)" where
  "auth_finish uuid now d tid uname found =
     (case found of
        None \<Rightarrow>
          (case upsert_user_telegram d tid uname uuid now of
             Inl err \<Rightarrow> Inl (Inl err)
           | Inr d' \<Rightarrow>
               (case first_row (select_users_by_telegram_id d' tid) of
                  None \<Rightarrow> Inl (Inr TypeError)
                | Some user \<Rightarrow> Inr (d', user)))
      | Some user \<Rightarrow>
          (case uname of
             Some name \<Rightarrow>
               if name \<noteq> [] \<and> uname \<noteq> users_username user
               then Inr (d \<lparr> users := map (\<lambda>u. if users_telegram_id u = Some tid
                                               then u \<lparr> users_username := uname, users_updated_at := now \<rparr>
                                               else u) (users d) \<rparr>, user)
               else Inr (d, user)
           | None \<Rightarrow> Inr (d, user)))"

section \<open>Ranking (server/routes/scores.js)\<close>

subsection \<open>getSafeInt\<close>








subsection \<open>GET /api/scores/leaderboard\<close>













subsection \<open>The rank of the profile endpoints\<close>

text \<open>
  \<^verbatim>\<open>SELECT COUNT(*) + 1 FROM (SELECT user_id, MAX(score) as best_score FROM scores
  GROUP BY user_id) t WHERE best_score > COALESCE((SELECT MAX(score) FROM scores
  WHERE user_id = ?), 0)\<close>
\<close>

definition max_score_of :: "db \<Rightarrow> nat \<Rightarrow> int option" where
  "max_score_of d uid =
     (case filter (\<lambda>r. scores_user_id r = uid) (scores d) of
        [] \<Rightarrow> None
      | r # rs \<Rightarrow> Some (fold max (map scores_score rs) (scores_score r)))"

definition profile_rank :: "db \<Rightarrow> nat \<Rightarrow> int" where
  "profile_rank d uid =
     (let own = (case max_score_of d uid of None \<Rightarrow> 0 | Some m \<Rightarrow> m)
      in int (length (filter (\<lambda>g. (case max_score_of d g of None \<Rightarrow> False | Some m \<Rightarrow> m > own))
                        (remdups (map scores_user_id (scores d))))) + 1)"

section \<open>Example requests and tables\<close>

definition empty_db :: db where
  "empty_db = \<lparr> users = [], scores = [], users_auto_increment = 1, scores_auto_increment = 1 \<rparr>"

definition sample_session_id :: string where
  "sample_session_id = ''123e4567-e89b-42d3-a456-426614174000''"

text \<open>A score sent with nothing but a session id, and a score sent for telegram user 7
  together with the forged payload.\<close>

definition session_body :: raw_body where
  "session_body =
     \<lparr> raw_sessionId = Some sample_session_id, raw_telegramId = Absent, raw_initData = None,
       raw_score = IntVal 500, raw_targetsHit = IntVal 5, raw_shotsFired = IntVal 10,
       raw_maxCombo = IntVal 2, raw_durationMs = IntVal 30000, raw_gameMode = None \<rparr>"

definition forged_body :: raw_body where
  "forged_body =
     \<lparr> raw_sessionId = None, raw_telegramId = IntVal 7, raw_initData = Some forged_payload,
       raw_score = IntVal 500, raw_targetsHit = IntVal 5, raw_shotsFired = IntVal 10,
       raw_maxCombo = IntVal 2, raw_durationMs = IntVal 30000, raw_gameMode = None \<rparr>"

text \<open>A first score of telegram user 7, and the table after the first of two racing
  submissions of it has run to its end.\<close>

definition telegram_body :: raw_body where
  "telegram_body =
     \<lparr> raw_sessionId = None, raw_telegramId = IntVal 7, raw_initData = None,
       raw_score = IntVal 500, raw_targetsHit = IntVal 5, raw_shotsFired = IntVal 10,
       raw_maxCombo = IntVal 2, raw_durationMs = IntVal 30000, raw_gameMode = None \<rparr>"

definition after_first_submission :: db where
  "after_first_submission =
     fst (post_scores_finish exact ''uuid-1'' 100 empty_db (sanitized telegram_body) (ByTelegram 7 None))"

text \<open>Two users: the first has played twice (10 and 20 points), the second not yet. The
  second then submits 5 points.\<close>

definition two_games_db :: db where
  "two_games_db =
     \<lparr> users =
         [\<lparr> users_id = 1, users_session_id = ''s-1'', users_username = None,
            users_telegram_id = Some 1, users_created_at = 10, users_updated_at = 10 \<rparr>,
          \<lparr> users_id = 2, users_session_id = ''s-2'', users_username = None,
            users_telegram_id = Some 2, users_created_at = 20, users_updated_at = 20 \<rparr>],
       scores =
         [\<lparr> scores_id = 1, scores_user_id = 1, scores_score = 10, scores_targets_hit = 1,
            scores_shots_fired = 1, scores_accuracy = 1, scores_max_combo = 1,
            scores_duration_ms = 5000, scores_game_mode = ''endless'', scores_created_at = 30 \<rparr>,
          \<lparr> scores_id = 2, scores_user_id = 1, scores_score = 20, scores_targets_hit = 2,
            scores_shots_fired = 2, scores_accuracy = 1, scores_max_combo = 1,
            scores_duration_ms = 5000, scores_game_mode = ''endless'', scores_created_at = 40 \<rparr>],
       users_auto_increment = 3, scores_auto_increment = 3 \<rparr>"

definition newcomer_body :: raw_body where
  "newcomer_body =
     \<lparr> raw_sessionId = None, raw_telegramId = IntVal 2, raw_initData = None,
       raw_score = IntVal 5, raw_targetsHit = IntVal 1, raw_shotsFired = IntVal 1,
       raw_maxCombo = IntVal 1, raw_durationMs = IntVal 5000, raw_gameMode = None \<rparr>"






section \<open>Properties of the result validator\<close>

lemmas GAME_defs = MIN_DURATION_MS_def MAX_DURATION_MS_def MAX_SCORE_PER_MINUTE_def
  MAX_HITS_PER_MINUTE_def MAX_COMBO_def MAX_SCORE_def











lemma overhit_ok: "handleValidationErrors overhit_body = Inr (sanitized overhit_body)"
  by (simp add: handleValidationErrors_def field_errors_def overhit_body_def GAME_defs)

lemma overhit_consistency: "consistency_violation (sanitized overhit_body)"
  by (simp add: sanitized_def overhit_body_def consistency_violation_def)

lemma overhit_rate: "rate_violation exact (sanitized overhit_body)"
  by (simp add: sanitized_def overhit_body_def rate_violation_def
      MIN_DURATION_FOR_ANTICHEAT_def scorePerMin_def hitsPerMin_def durationMin_def
      exact_def GAME_defs)

lemma overhit_result: "validateGameResult exact overhit_body = Inl TooManyHits"
  unfolding validateGameResult_def overhit_ok
  by (simp add: antiCheat_def sanitized_def overhit_body_def
      MIN_DURATION_FOR_ANTICHEAT_def scorePerMin_def hitsPerMin_def durationMin_def
      exact_def GAME_defs)

text \<open>
  Claim C5, as stated, fails: the handler runs the two rate checks first and the
  hits-against-shots rule last. The body \<open>overhit_body\<close> (100 hits, 10 shots, 30000 ms)
  passes the field checks and breaks both the consistency rule and the hits-per-minute
  ceiling (30000 / 60000 = 0.5 and 100 / 0.5 = 200 are exact in doubles); the answer is
  the rate rejection, not "hits exceed shots".
\<close>

theorem consistency_checked_first_counterexample:
  "handleValidationErrors overhit_body = Inr (sanitized overhit_body) \<and>
   consistency_violation (sanitized overhit_body) \<and>
   rate_violation exact (sanitized overhit_body) \<and>
   validateGameResult exact overhit_body = Inl TooManyHits \<and>
   validateGameResult exact overhit_body \<noteq> Inl HitsExceedShots"
  by (simp add: overhit_ok overhit_consistency overhit_rate overhit_result)

text \<open>
  Claim C5, amended. After the field checks the rate checks come before the consistency
  rule: a body that breaks a rate ceiling is rejected for the rate (score first, then
  hits), whether or not its hits exceed its shots; "hits exceed shots" is the answer
  exactly when no rate check fires and the hits exceed a positive number of shots.
\<close>

theorem rate_checks_precede_consistency:
  assumes ok: "handleValidationErrors rb = Inr b"
  shows "(rate_violation fl b \<longrightarrow>
            validateGameResult fl rb = Inl ScoreTooHigh \<or> validateGameResult fl rb = Inl TooManyHits) \<and>
         (validateGameResult fl rb = Inl HitsExceedShots \<longleftrightarrow>
            \<not> rate_violation fl b \<and> consistency_violation b)"
  using ok
  by (auto simp add: validateGameResult_def antiCheat_def rate_violation_def
      consistency_violation_def)

theorem rate_checks_precede_consistency_witness:
  "(validateGameResult exact overhit_body = Inl ScoreTooHigh \<or>
    validateGameResult exact overhit_body = Inl TooManyHits) \<and>
   validateGameResult exact overhit_body \<noteq> Inl HitsExceedShots"
  using rate_checks_precede_consistency [OF overhit_ok, of exact] overhit_rate by simp

section \<open>Properties of the signature verifier\<close>

lemma length_foldl_round: "length (foldl sha256_round vs kws) = length vs"
proof (induction kws arbitrary: vs)
  case Nil
  show ?case by simp
next
  case (Cons kw kws)
  obtain k w where kw: "kw = (k, w)" by (cases kw)
  have "length (sha256_round vs (k, w)) = length vs"
    by (induction vs "(k, w)" rule: sha256_round.induct) (simp_all add: Let_def)
  then show ?case using Cons.IH [of "sha256_round vs kw"] by (simp add: kw)
qed

lemma length_compress: "length (compress hs block) = length hs"
  by (simp add: compress_def length_foldl_round)

lemma length_foldl_compress: "length (foldl compress hs bs) = length hs"
  by (induction bs arbitrary: hs) (simp_all add: length_compress)

lemma length_concat_be_bytes: "length (concat (map be_bytes ws)) = 4 * length ws"
  by (induction ws) (simp_all add: be_bytes_def)

lemma length_sha256: "length (sha256 m) = 32"
  by (simp add: sha256_def Let_def length_concat_be_bytes length_foldl_compress sha256_H0_def)

lemma length_hmac_sha256: "length (hmac_sha256 key m) = 32"
  by (simp add: hmac_sha256_def Let_def length_sha256)

lemma hex_value_hex_digit: "n < 16 \<Longrightarrow> hex_value (hex_digit n) = Some n"
proof -
  have "\<forall>n \<in> set [0 ..< 16]. hex_value (hex_digit n) = Some n"
    by code_simp
  then show "n < 16 \<Longrightarrow> hex_value (hex_digit n) = Some n" by simp
qed

lemma char_of_div_mod: "char_of ((of_char c :: nat) div 16 * 16 + of_char c mod 16) = c"
  by simp

lemma of_char_div_16: "(of_char c :: nat) div 16 < 16"
proof -
  have "(of_char c :: nat) < 256" by simp
  then show ?thesis by (simp add: less_mult_imp_div_less)
qed

lemma hex_decode_encode_append: "hex_decode (hex_encode bs @ rest) = bs @ hex_decode rest"
  by (induction bs) (simp_all add: hex_encode_def hex_value_hex_digit of_char_div_16)

lemma hex_decode_encode: "hex_decode (hex_encode bs) = bs"
  using hex_decode_encode_append [of bs "[]"] by simp


lemma hex_decode_calculatedHash:
  "hex_decode (calculatedHash cmp init tok) =
     hmac_sha256 (hmac_sha256 ''WebAppData'' tok)
       (dataCheckString cmp (params_delete ''hash'' (URLSearchParams init)))"
  by (simp add: calculatedHash_def Let_def hex_decode_encode)

lemma length_hex_decode_calculatedHash: "length (hex_decode (calculatedHash cmp init tok)) = 32"
  by (simp add: hex_decode_calculatedHash length_hmac_sha256)

lemma verify_try_cases:
  "verify_try cmp init tok =
     (case params_get ''hash'' (URLSearchParams init) of
        None \<Rightarrow> Inr False
      | Some hash \<Rightarrow>
          if hash = [] then Inr False
          else if length (hex_decode hash) \<noteq> 32 then Inl RangeError
          else Inr (hex_decode hash = hex_decode (calculatedHash cmp init tok)))"
  by (simp add: verify_try_def timingSafeEqual_def length_hex_decode_calculatedHash
      split: option.splits)







lemma length_hex_encode: "length (hex_encode bs) = 2 * length bs"
  by (induction bs) (simp_all add: hex_encode_def)



lemma length_genuine_hash: "length genuine_hash = 64"
  by (simp add: genuine_hash_def calculatedHash_def Let_def length_hex_encode length_hmac_sha256)










lemma genuine_hash_nonempty: "genuine_hash \<noteq> []"
  using length_genuine_hash by auto

lemma sample_token_nonempty: "sample_token \<noteq> []"
  by (simp add: sample_token_def)









section \<open>Properties of the identity extractor and the auth resolver\<close>

lemma params_no_id: "URLSearchParams no_id_payload = [(''user'', json_empty_object)]"
  by (simp add: no_id_payload_def URLSearchParams_def parse_pair_def plus_to_space_def
      json_empty_object_def)

lemma params_forged:
  "URLSearchParams forged_payload = [(''user'', json_id_7), (''hash'', ''00'')]"
  by code_simp

lemma json_texts_differ: "json_id_7 \<noteq> json_empty_object" "json_id_7 \<noteq> []" "json_empty_object \<noteq> []"
  by (simp_all add: json_id_7_def json_empty_object_def)

lemma extract_no_id:
  "extractTelegramUser parse_examples (Some no_id_payload) =
     Some \<lparr> tg_telegramId = Undefined, tg_username = JNull, tg_firstName = JStr '''',
            tg_lastName = JStr '''', tg_languageCode = JStr ''en'', tg_isPremium = JBool False \<rparr>"
proof -
  have "no_id_payload \<noteq> []" by (simp add: no_id_payload_def)
  then show ?thesis
    by (simp add: extractTelegramUser_def extract_try_def params_no_id parse_examples_def
        json_texts_differ)
qed

lemma extract_forged:
  "extractTelegramUser parse_examples (Some forged_payload) =
     Some \<lparr> tg_telegramId = Defined (JNum 7), tg_username = JNull, tg_firstName = JStr '''',
            tg_lastName = JStr '''', tg_languageCode = JStr ''en'', tg_isPremium = JBool False \<rparr>"
proof -
  have "forged_payload \<noteq> []" by (simp add: forged_payload_def)
  then show ?thesis
    by (simp add: extractTelegramUser_def extract_try_def params_forged parse_examples_def
        json_texts_differ)
qed

text \<open>
  Claim C8, as stated, fails: the extractor never looks at the id. For the payload
  \<^verbatim>\<open>user={}\<close>, whose user object has no \<^verbatim>\<open>id\<close>, it returns a record whose
  \<^verbatim>\<open>telegramId\<close> is undefined and whose other fields are the defaults: a partial identity,
  not null.
\<close>

theorem extractor_partial_identity_counterexample:
  "params_get ''user'' (URLSearchParams no_id_payload) = Some json_empty_object \<and>
   parse_examples json_empty_object = Inr (JObj []) \<and>
   get_prop (JObj []) ''id'' = Undefined \<and>
   extractTelegramUser parse_examples (Some no_id_payload) =
     Some \<lparr> tg_telegramId = Undefined, tg_username = JNull, tg_firstName = JStr '''',
            tg_lastName = JStr '''', tg_languageCode = JStr ''en'', tg_isPremium = JBool False \<rparr>"
  by (simp add: params_no_id parse_examples_def extract_no_id)

text \<open>
  Claim C8, amended. The extractor never throws. It returns null exactly when the
  payload is missing or empty, the \<^verbatim>\<open>user\<close> field is absent or empty, the user text does
  not parse, or it parses to null. Otherwise it returns a record: \<^verbatim>\<open>telegramId\<close> is
  whatever \<^verbatim>\<open>user.id\<close> is (undefined when the member is absent), the name fields default
  to null and the empty string, the locale is \<^verbatim>\<open>en\<close> when \<^verbatim>\<open>language_code\<close> is absent,
  and the premium flag is false when \<^verbatim>\<open>is_premium\<close> is absent.
\<close>

theorem extractor_null_cases_and_defaults:
  "(extractTelegramUser parse initData = None \<longleftrightarrow>
      falsy initData \<or>
      (\<exists>init. initData = Some init \<and>
         (falsy (params_get ''user'' (URLSearchParams init)) \<or>
          (\<exists>userJson. params_get ''user'' (URLSearchParams init) = Some userJson \<and>
             (parse userJson = Inr JNull \<or> (\<exists>err. parse userJson = Inl err)))))) \<and>
   (\<forall>u. extractTelegramUser parse initData = Some u \<longrightarrow>
      (\<exists>init userJson user.
         initData = Some init \<and> params_get ''user'' (URLSearchParams init) = Some userJson \<and>
         parse userJson = Inr user \<and>
         tg_telegramId u = get_prop user ''id'' \<and>
         tg_username u = js_or (get_prop user ''username'') JNull \<and>
         tg_firstName u = js_or (get_prop user ''first_name'') (JStr '''') \<and>
         tg_lastName u = js_or (get_prop user ''last_name'') (JStr '''') \<and>
         (get_prop user ''language_code'' = Undefined \<longrightarrow> tg_languageCode u = JStr ''en'') \<and>
         (get_prop user ''is_premium'' = Undefined \<longrightarrow> tg_isPremium u = JBool False)))"
proof (cases initData)
  case None
  then show ?thesis by (simp add: extractTelegramUser_def)
next
  case (Some init)
  show ?thesis
  proof (cases "params_get ''user'' (URLSearchParams init)")
    case None
    then show ?thesis by (simp add: Some extractTelegramUser_def extract_try_def)
  next
    case uj: (Some userJson)
    show ?thesis
    proof (cases "parse userJson")
      case (Inl err)
      then show ?thesis by (simp add: Some uj extractTelegramUser_def extract_try_def)
    next
      case (Inr user)
      then show ?thesis
        by (auto simp add: Some uj extractTelegramUser_def extract_try_def)
    qed
  qed
qed

theorem extractor_null_cases_and_defaults_witness:
  "\<exists>u. extractTelegramUser parse_examples (Some forged_payload) = Some u \<and>
       tg_telegramId u = Defined (JNum 7) \<and>
       tg_languageCode u = JStr ''en'' \<and> tg_isPremium u = JBool False"
proof -
  obtain u where u: "extractTelegramUser parse_examples (Some forged_payload) = Some u"
    by (simp add: extract_forged)
  from extractor_null_cases_and_defaults [of parse_examples "Some forged_payload", THEN conjunct2, rule_format, OF u]
  obtain user where
    "parse_examples json_id_7 = Inr user"
    "tg_telegramId u = get_prop user ''id''"
    "get_prop user ''language_code'' = Undefined \<longrightarrow> tg_languageCode u = JStr ''en''"
    "get_prop user ''is_premium'' = Undefined \<longrightarrow> tg_isPremium u = JBool False"
    by (auto simp add: params_forged)
  then show ?thesis
    using u by (auto simp add: parse_examples_def json_texts_differ)
qed

lemma forged_not_verified:
  "\<not> verifyTelegramWebAppData compare_code_units (Some forged_payload) (Some sample_token)"
proof -
  have "verify_try compare_code_units forged_payload sample_token = Inl RangeError"
    by (simp add: verify_try_cases params_forged hex_value_def)
  then show ?thesis by (simp add: verifyTelegramWebAppData_def)
qed

text \<open>
  Claim C2 against the code. With \<^verbatim>\<open>NODE_ENV=production\<close> and
  \<^verbatim>\<open>SKIP_TELEGRAM_VERIFY=true\<close> the guard \<^verbatim>\<open>!isDev && !skipVerify\<close> is false, so both the
  middleware and the route \<^verbatim>\<open>POST /api/auth/telegram\<close> skip the verifier: the payload
  \<^verbatim>\<open>user=%7B%22id%22%3A7%7D&hash=00\<close>, which the verifier rejects, is trusted as user 7.
\<close>

theorem production_skip_verify_trusts_forged_payload:
  "is_production production_skip_env \<and>
   \<not> verifyTelegramWebAppData compare_code_units (Some forged_payload) (BOT_TOKEN production_skip_env) \<and>
   telegramAuthMiddleware compare_code_units parse_examples production_skip_env
       (Some forged_payload) None =
     NextTelegram \<lparr> tg_telegramId = Defined (JNum 7), tg_username = JNull, tg_firstName = JStr '''',
            tg_lastName = JStr '''', tg_languageCode = JStr ''en'', tg_isPremium = JBool False \<rparr> \<and>
   auth_telegram_identity compare_code_units parse_examples production_skip_env
       (Some forged_payload) =
     Inr \<lparr> tg_telegramId = Defined (JNum 7), tg_username = JNull, tg_firstName = JStr '''',
            tg_lastName = JStr '''', tg_languageCode = JStr ''en'', tg_isPremium = JBool False \<rparr>"
proof -
  have ne: "forged_payload \<noteq> []" by (simp add: forged_payload_def)
  have sk: "skipVerify production_skip_env" "BOT_TOKEN production_skip_env = Some sample_token"
    "is_production production_skip_env"
    by (simp_all add: skipVerify_def production_skip_env_def is_production_def)
  show ?thesis
    by (simp add: sk forged_not_verified telegramAuthMiddleware_def auth_telegram_identity_def
        extract_forged ne)
qed

text \<open>Without the skip flag, outside development, an identity is attached only when the
  verifier has accepted the payload.\<close>

lemma signature_required_without_skip:
  assumes "\<not> isDev e" "\<not> skipVerify e"
  shows "telegramAuthMiddleware cmp parse e initData sessionId = NextTelegram u
           \<Longrightarrow> verifyTelegramWebAppData cmp initData (BOT_TOKEN e)"
    and "auth_telegram_identity cmp parse e initData = Inr u
           \<Longrightarrow> verifyTelegramWebAppData cmp initData (BOT_TOKEN e)"
  using assms
  by (auto simp add: telegramAuthMiddleware_def auth_telegram_identity_def Let_def
      split: if_splits option.splits)

lemma production_env_rejects_forged:
  "telegramAuthMiddleware compare_code_units parse_examples production_env (Some forged_payload) None
     = Respond 401 ''Invalid Telegram authentication''"
proof -
  have ne: "forged_payload \<noteq> []" by (simp add: forged_payload_def)
  show ?thesis
    by (simp add: telegramAuthMiddleware_def production_env_def isDev_def skipVerify_def
        forged_not_verified ne sample_token_nonempty)
qed

section \<open>Properties of score submission\<close>

lemma session_rejected_in_production:
  "telegramAuthMiddleware compare_code_units parse_examples production_env
     (raw_initData session_body) (raw_sessionId session_body)
   = Respond 401 ''Session authentication not allowed in production''"
  by (simp add: telegramAuthMiddleware_def session_body_def production_env_def isDev_def
      sample_session_id_def)

lemma session_body_stored:
  "post_scores exact ''uuid-1'' 100 False empty_db session_body =
     (\<lparr> users = [\<lparr> users_id = 1, users_session_id = sample_session_id, users_username = None,
                    users_telegram_id = None, users_created_at = 100, users_updated_at = 100 \<rparr>],
        scores = [\<lparr> scores_id = 1, scores_user_id = 1, scores_score = 500, scores_targets_hit = 5,
                     scores_shots_fired = 10, scores_accuracy = 1 / 2, scores_max_combo = 2,
                     scores_duration_ms = 30000, scores_game_mode = ''endless'',
                     scores_created_at = 100 \<rparr>],
        users_auto_increment = 2, scores_auto_increment = 2 \<rparr>,
      Created \<lparr> created_scoreId = 1, created_rank = 1, created_score = 500,
                created_targetsHit = 5, created_accuracy = 50, created_maxCombo = 2 \<rparr>)"
  by code_simp

lemma forged_body_stored:
  "post_scores exact ''uuid-1'' 100 False empty_db forged_body =
     (\<lparr> users = [\<lparr> users_id = 1, users_session_id = ''uuid-1'', users_username = None,
                    users_telegram_id = Some 7, users_created_at = 100, users_updated_at = 100 \<rparr>],
        scores = [\<lparr> scores_id = 1, scores_user_id = 1, scores_score = 500, scores_targets_hit = 5,
                     scores_shots_fired = 10, scores_accuracy = 1 / 2, scores_max_combo = 2,
                     scores_duration_ms = 30000, scores_game_mode = ''endless'',
                     scores_created_at = 100 \<rparr>],
        users_auto_increment = 2, scores_auto_increment = 2 \<rparr>,
      Created \<lparr> created_scoreId = 1, created_rank = 1, created_score = 500,
                created_targetsHit = 5, created_accuracy = 50, created_maxCombo = 2 \<rparr>)"
  by code_simp

lemma race_first:
  "post_scores_finish exact ''uuid-1'' 100 empty_db (sanitized telegram_body) (ByTelegram 7 None) =
     (after_first_submission,
      Created \<lparr> created_scoreId = 1, created_rank = 1, created_score = 500,
                created_targetsHit = 5, created_accuracy = 50, created_maxCombo = 2 \<rparr>)"
  by code_simp

lemma race_second:
  "post_scores_finish exact ''uuid-2'' 101 after_first_submission (sanitized telegram_body)
     (ByTelegram 7 None) = (after_first_submission, ServerError ER_DUP_ENTRY)"
  by code_simp

lemma race_lookup: "post_scores_lookup empty_db (sanitized telegram_body) = ByTelegram 7 None"
  by code_simp

lemma race_rows: "map users_telegram_id (users after_first_submission) = [Some 7]"
  by code_simp


text \<open>
  Claim C1 against the code. The route \<^verbatim>\<open>POST /api/scores\<close> runs the limiter, the
  validator and the handler; the auth resolver is not mounted on it and the handler
  never calls the verifier (it takes \<^verbatim>\<open>initData\<close> from the body "for verification" and
  does not use it). In production as the guide configures it, the resolver answers 401
  to a body that has only a session id and to a body with the forged payload; the route
  stores a user row and a result for both and answers 201.
\<close>

theorem post_scores_stores_unauthenticated_results:
  "telegramAuthMiddleware compare_code_units parse_examples production_env
     (raw_initData session_body) (raw_sessionId session_body)
     = Respond 401 ''Session authentication not allowed in production'' \<and>
   post_scores exact ''uuid-1'' 100 False empty_db session_body =
     (\<lparr> users = [\<lparr> users_id = 1, users_session_id = sample_session_id, users_username = None,
                    users_telegram_id = None, users_created_at = 100, users_updated_at = 100 \<rparr>],
        scores = [\<lparr> scores_id = 1, scores_user_id = 1, scores_score = 500, scores_targets_hit = 5,
                     scores_shots_fired = 10, scores_accuracy = 1 / 2, scores_max_combo = 2,
                     scores_duration_ms = 30000, scores_game_mode = ''endless'',
                     scores_created_at = 100 \<rparr>],
        users_auto_increment = 2, scores_auto_increment = 2 \<rparr>,
      Created \<lparr> created_scoreId = 1, created_rank = 1, created_score = 500,
                created_targetsHit = 5, created_accuracy = 50, created_maxCombo = 2 \<rparr>) \<and>
   telegramAuthMiddleware compare_code_units parse_examples production_env
     (raw_initData forged_body) (raw_sessionId forged_body)
     = Respond 401 ''Invalid Telegram authentication'' \<and>
   post_scores exact ''uuid-1'' 100 False empty_db forged_body =
     (\<lparr> users = [\<lparr> users_id = 1, users_session_id = ''uuid-1'', users_username = None,
                    users_telegram_id = Some 7, users_created_at = 100, users_updated_at = 100 \<rparr>],
        scores = [\<lparr> scores_id = 1, scores_user_id = 1, scores_score = 500, scores_targets_hit = 5,
                     scores_shots_fired = 10, scores_accuracy = 1 / 2, scores_max_combo = 2,
                     scores_duration_ms = 30000, scores_game_mode = ''endless'',
                     scores_created_at = 100 \<rparr>],
        users_auto_increment = 2, scores_auto_increment = 2 \<rparr>,
      Created \<lparr> created_scoreId = 1, created_rank = 1, created_score = 500,
                created_targetsHit = 5, created_accuracy = 50, created_maxCombo = 2 \<rparr>)"
proof -
  have "telegramAuthMiddleware compare_code_units parse_examples production_env
     (raw_initData forged_body) (raw_sessionId forged_body)
     = Respond 401 ''Invalid Telegram authentication''"
    using production_env_rejects_forged by (simp add: forged_body_def)
  then show ?thesis
    by (simp only: session_rejected_in_production session_body_stored forged_body_stored
        simp_thms)
qed

text \<open>
  Claim C3 against the code. In \<^verbatim>\<open>POST /api/scores\<close> the creation step is a plain
  \<^verbatim>\<open>INSERT\<close>. Two first submissions for telegram id 7 that both look the user up
  before either inserts: the first one creates the row and answers 201, the second one
  fails on the unique key and ends in the error handler. One user row exists afterward,
  but only one submission succeeds.
\<close>

theorem concurrent_first_submissions_duplicate_key:
  "post_scores_lookup empty_db (sanitized telegram_body) = ByTelegram 7 None \<and>
   post_scores_finish exact ''uuid-1'' 100 empty_db (sanitized telegram_body) (ByTelegram 7 None) =
     (after_first_submission,
      Created \<lparr> created_scoreId = 1, created_rank = 1, created_score = 500,
                created_targetsHit = 5, created_accuracy = 50, created_maxCombo = 2 \<rparr>) \<and>
   post_scores_finish exact ''uuid-2'' 101 after_first_submission (sanitized telegram_body)
     (ByTelegram 7 None) = (after_first_submission, ServerError ER_DUP_ENTRY) \<and>
   map users_telegram_id (users after_first_submission) = [Some 7]"
  by (simp only: race_lookup race_first race_second race_rows simp_thms)

lemma resolve_user_scores: "resolve_user uuid now d l = Inr (d1, uid) \<Longrightarrow> scores d1 = scores d"
  by (auto simp add: resolve_user_def insert_user_def
      split: user_lookup.splits option.splits sum.splits if_splits)

lemma insert_score_appends:
  "insert_score d uid sc hits shots acc combo duration m now = Inr (d2, i)
     \<Longrightarrow> \<exists>row. scores d2 = scores d @ [row] \<and> scores_score row = sc"
  by (auto simp add: insert_score_def split: if_splits sum.splits)

lemma handler_rank:
  assumes "post_scores_handler fl uuid now d b = (d', Created r)"
  shows "created_score r = body_score b \<and>
         created_rank r = 1 + int (length (filter (\<lambda>row. scores_score row > body_score b) (scores d'))) \<and>
         created_rank r = 1 + int (length (filter (\<lambda>row. scores_score row > body_score b) (scores d)))"
proof -
  from assms obtain d1 userId d2 insertId where
    r1: "resolve_user uuid now d (post_scores_lookup d b) = Inr (d1, userId)" and
    r2: "insert_score d1 userId (body_score b) (body_targetsHit b) (body_shotsFired b)
           (accuracy fl b) (body_maxCombo b) (body_durationMs b)
           (case body_gameMode b of None \<Rightarrow> ''endless'' | Some m \<Rightarrow> m) now = Inr (d2, insertId)" and
    d': "d' = d2" and
    r: "r = \<lparr> created_scoreId = insertId,
              created_rank = (if select_rank d2 (body_score b) = 0 then 1 else select_rank d2 (body_score b)),
              created_score = body_score b, created_targetsHit = body_targetsHit b,
              created_accuracy = Math_round (fl (accuracy fl b * 100)),
              created_maxCombo = body_maxCombo b \<rparr>"
    by (auto simp add: post_scores_handler_def post_scores_finish_def Let_def
        split: sum.splits prod.splits)
  from insert_score_appends [OF r2] obtain row where
    row: "scores d2 = scores d1 @ [row]" "scores_score row = body_score b" by blast
  have same: "scores d1 = scores d" by (rule resolve_user_scores [OF r1])
  show ?thesis
    by (simp add: r d' select_rank_def row same)
qed

text \<open>
  Claim C10. The rank in the 201 answer is one more than the number of stored result
  rows, of any user, whose score is above the submitted score (the row just stored does
  not count: its score is not above itself). The profile endpoints rank users by their
  best score instead: after user 2 submits 5 points to a table where user 1 has results
  of 10 and 20 points, the answer says rank 3 and the profile of user 2 says rank 2.
\<close>

theorem submission_rank_counts_result_rows:
  "(post_scores fl uuid now limited d rb = (d', Created r) \<longrightarrow>
      created_score r = toInt (raw_score rb) \<and>
      created_rank r =
        1 + int (length (filter (\<lambda>row. scores_score row > created_score r) (scores d')))) \<and>
   snd (post_scores exact ''uuid-1'' 100 False two_games_db newcomer_body) =
     Created \<lparr> created_scoreId = 3, created_rank = 3, created_score = 5,
               created_targetsHit = 1, created_accuracy = 100, created_maxCombo = 1 \<rparr> \<and>
   map scores_user_id (scores (fst (post_scores exact ''uuid-1'' 100 False two_games_db newcomer_body)))
     = [1, 1, 2] \<and>
   profile_rank (fst (post_scores exact ''uuid-1'' 100 False two_games_db newcomer_body)) 2 = 2"
proof (intro conjI impI)
  assume a: "post_scores fl uuid now limited d rb = (d', Created r)"
  then obtain b where b: "validateGameResult fl rb = Inr b"
    and h: "post_scores_handler fl uuid now d b = (d', Created r)"
    by (auto simp add: post_scores_def split: if_splits sum.splits)
  from b have "b = sanitized rb"
    by (auto simp add: validateGameResult_def handleValidationErrors_def antiCheat_def
        split: if_splits sum.splits)
  then have sc: "body_score b = toInt (raw_score rb)" by (simp add: sanitized_def)
  from handler_rank [OF h] sc
  show "created_score r = toInt (raw_score rb)" by simp
  from handler_rank [OF h] sc
  show "created_rank r =
        1 + int (length (filter (\<lambda>row. scores_score row > created_score r) (scores d')))"
    by simp
next
  show "snd (post_scores exact ''uuid-1'' 100 False two_games_db newcomer_body) =
     Created \<lparr> created_scoreId = 3, created_rank = 3, created_score = 5,
               created_targetsHit = 1, created_accuracy = 100, created_maxCombo = 1 \<rparr>"
    by code_simp
  show "map scores_user_id (scores (fst (post_scores exact ''uuid-1'' 100 False two_games_db newcomer_body)))
     = [1, 1, 2]"
    by code_simp
  show "profile_rank (fst (post_scores exact ''uuid-1'' 100 False two_games_db newcomer_body)) 2 = 2"
    by code_simp
qed

lemma newcomer_created:
  "post_scores exact ''uuid-1'' 100 False two_games_db newcomer_body =
     (fst (post_scores exact ''uuid-1'' 100 False two_games_db newcomer_body),
      Created \<lparr> created_scoreId = 3, created_rank = 3, created_score = 5,
                created_targetsHit = 1, created_accuracy = 100, created_maxCombo = 1 \<rparr>)"
  by code_simp

lemma newcomer_scores:
  "map scores_score (scores (fst (post_scores exact ''uuid-1'' 100 False two_games_db newcomer_body)))
     = [10, 20, 5]"
  by code_simp

theorem submission_rank_counts_result_rows_witness:
  "1 + int (length (filter (\<lambda>row. scores_score row > 5)
       (scores (fst (post_scores exact ''uuid-1'' 100 False two_games_db newcomer_body))))) = 3"
  using submission_rank_counts_result_rows [of exact "''uuid-1''" 100 False two_games_db newcomer_body
      "fst (post_scores exact ''uuid-1'' 100 False two_games_db newcomer_body)"
      "\<lparr> created_scoreId = 3, created_rank = 3, created_score = 5,
         created_targetsHit = 1, created_accuracy = 100, created_maxCombo = 1 \<rparr>"]
    newcomer_created
  by simp


text \<open>The race in general: for an identity that has no row, the second plain insert
  fails whenever the first has succeeded; the upsert of \<^verbatim>\<open>POST /api/auth/telegram\<close>
  followed by its second lookup succeeds twice and leaves one row.\<close>

lemma scores_race_duplicate_key:
  assumes new: "select_users_by_telegram_id d tid = []"
    and fresh: "uuid1 \<notin> set (map users_session_id (users d))"
  shows "\<exists>d1 uid. resolve_user uuid1 now1 d (ByTelegram tid None) = Inr (d1, uid) \<and>
           resolve_user uuid2 now2 d1 (ByTelegram tid None) = Inl (Inr ER_DUP_ENTRY)"
proof -
  have "Some tid \<notin> set (map users_telegram_id (users d))"
    using new by (auto simp add: select_users_by_telegram_id_def filter_empty_conv)
  then show ?thesis
    using fresh by (simp add: resolve_user_def insert_user_def)
qed

lemma select_after_update:
  "select_users_by_telegram_id (update_username d uid uname now) tid =
     map (\<lambda>u. if users_id u = uid then u \<lparr> users_username := uname, users_updated_at := now \<rparr> else u)
       (select_users_by_telegram_id d tid)"
  by (simp add: select_users_by_telegram_id_def update_username_def filter_map comp_def
      if_distrib [of users_telegram_id] cong: if_cong)

lemma auth_race_one_row:
  assumes new: "select_users_by_telegram_id d tid = []"
    and fresh1: "uuid1 \<notin> set (map users_session_id (users d))"
    and fresh2: "uuid2 \<notin> set (map users_session_id (users d))"
  shows "\<exists>d1 d2 row1 row2.
           auth_finish uuid1 now1 d tid uname1 None = Inr (d1, row1) \<and>
           auth_finish uuid2 now2 d1 tid uname2 None = Inr (d2, row2) \<and>
           users_id row2 = users_id row1 \<and>
           length (select_users_by_telegram_id d2 tid) = 1 \<and>
           length (users d2) = Suc (length (users d))"
proof -
  define row where "row = \<lparr> users_id = users_auto_increment d, users_session_id = uuid1,
       users_username = uname1, users_telegram_id = Some tid,
       users_created_at = now1, users_updated_at = now1 \<rparr>"
  define d1 where "d1 = d \<lparr> users := users d @ [row],
       users_auto_increment := Suc (users_auto_increment d) \<rparr>"
  have notid: "Some tid \<notin> set (map users_telegram_id (users d))"
    using new by (auto simp add: select_users_by_telegram_id_def filter_empty_conv)
  have s1: "select_users_by_session_id d uuid1 = []"
    using fresh1 by (auto simp add: select_users_by_session_id_def filter_empty_conv)
  have s2: "select_users_by_session_id d uuid2 = []"
    using fresh2 by (auto simp add: select_users_by_session_id_def filter_empty_conv)
  have ins: "insert_user d uuid1 uname1 (Some tid) now1 = Inr (d1, users_auto_increment d)"
    using fresh1 notid by (simp add: insert_user_def d1_def row_def)
  have sel1: "select_users_by_telegram_id d1 tid = [row]"
    using new by (simp add: select_users_by_telegram_id_def d1_def row_def)
  have first: "auth_finish uuid1 now1 d tid uname1 None = Inr (d1, row)"
    by (simp add: auth_finish_def upsert_user_telegram_def s1 new ins sel1)
  have sess: "first_row (select_users_by_session_id d1 uuid2) = (if uuid2 = uuid1 then Some row else None)"
    using s2 by (simp add: select_users_by_session_id_def d1_def row_def)
  define d2 where "d2 = update_username d1 (users_id row) uname2 now2"
  have ups: "upsert_user_telegram d1 tid uname2 uuid2 now2 = Inr d2"
    by (simp add: upsert_user_telegram_def sess sel1 d2_def)
  have sel2: "select_users_by_telegram_id d2 tid =
                [row \<lparr> users_username := uname2, users_updated_at := now2 \<rparr>]"
    by (simp add: d2_def select_after_update sel1)
  have second: "auth_finish uuid2 now2 d1 tid uname2 None =
                  Inr (d2, row \<lparr> users_username := uname2, users_updated_at := now2 \<rparr>)"
    by (simp add: auth_finish_def ups sel2)
  have len: "length (users d2) = Suc (length (users d))"
    by (simp add: d2_def update_username_def d1_def)
  show ?thesis
    using first second sel2 len by auto
qed

section \<open>Properties of the leaderboard\<close>

























end
